theory Spec2Isabelle
  imports Complex_Main "HOL-Library.AList"
begin

section \<open>Investment advisor: the caching market-data client and JSON extraction\<close>

text \<open>
  The development embeds \<^verbatim>\<open>src/agents/alpha_vantage_client.py\<close> (class
  \<^verbatim>\<open>AlphaVantageClient\<close>), \<^verbatim>\<open>evaluate_portfolio_symbols\<close> of
  \<^verbatim>\<open>src/agents/financial_data_agent.py\<close>, \<^verbatim>\<open>extract_json_response\<close> of
  \<^verbatim>\<open>src/main.py\<close> and the reply handling of \<^verbatim>\<open>process_feedback\<close> in
  \<^verbatim>\<open>src/workflow.py\<close>.

  Conventions of the embedding:
  \<^item> Python floats are exact rationals (\<^typ>\<open>rat\<close>): the binary rounding error of IEEE
    doubles, infinities and NaN are not modelled.
  \<^item> A \<^verbatim>\<open>datetime\<close> is an integer number of microseconds; a calendar date
    (\<^verbatim>\<open>"%Y-%m-%d"\<close>) is its day number.
  \<^item> The world outside the client is an environment: the clock gives the value of the
    n-th \<^verbatim>\<open>datetime.now()\<close>, the provider gives the reply to the n-th
    \<^verbatim>\<open>requests.get\<close>. The client state counts the clock readings and logs the
    requests, so that "no provider request" is a statement about the log.
  \<^item> A provider reply is modelled after decoding: each field the code reads is either its
    value or the message of the exception that reading it raises.
\<close>

subsection \<open>Time and rounding\<close>

type_synonym time = int

definition timedelta_hours :: "int \<Rightarrow> int" where
  "timedelta_hours h = h * 3600000000"

definition timedelta_days :: "int \<Rightarrow> int" where
  "timedelta_days d = d * 86400000000"

definition date_of :: "time \<Rightarrow> int" where
  \<comment> \<open>\<^verbatim>\<open>strftime("%Y-%m-%d")\<close> followed by \<^verbatim>\<open>strptime\<close>: the day of a datetime\<close>
  "date_of t = t div 86400000000"

definition strftime :: "time \<Rightarrow> int" where
  \<comment> \<open>\<^verbatim>\<open>strftime("%Y-%m-%d %H:%M:%S")\<close>: the datetime cut to whole seconds\<close>
  "strftime t = t div 1000000"

definition py_round :: "rat \<Rightarrow> int" where
  \<comment> \<open>Python 3 \<^verbatim>\<open>round(x)\<close>: to the nearest integer, a tie to the even one\<close>
  "py_round x =
     (let f = \<lfloor>x\<rfloor>; r = x - of_int f
      in if r < 1 / 2 then f else if 1 / 2 < r then f + 1
         else if even f then f else f + 1)"

definition py_round2 :: "rat \<Rightarrow> rat" where
  \<comment> \<open>\<^verbatim>\<open>round(x, 2)\<close>\<close>
  "py_round2 x = of_int (py_round (x * 100)) / 100"

subsection \<open>Data model\<close>

type_synonym 'a field = "string + 'a"

record params =
  p_function :: string
  p_symbol :: "string option"
  p_outputsize :: "string option"
  p_apikey :: string

record raw_quote =
  price_05 :: "rat field"
  volume_06 :: "int field"
  change_percent_10 :: "string field"

record body =
  global_quote :: "raw_quote option"
  time_series_daily :: "(int \<times> rat field) list option"
  is_empty :: bool
  error_message :: bool
  ov_name :: "string option"
  ov_description :: "string option"
  ov_sector :: "string option"
  ov_pe_ratio :: "string option"
  ov_dividend_yield :: "string option"
  ov_market_cap :: "string option"
  rank_a :: "(string \<times> string) list option"

text \<open>
  \<open>global_quote\<close>, \<open>time_series_daily\<close> and \<open>rank_a\<close> are \<open>None\<close> when the key is not
  in the reply; \<open>global_quote\<close> is also \<open>None\<close> for an empty object. \<open>is_empty\<close> is
  \<^verbatim>\<open>not data\<close>, \<open>error_message\<close> is \<^verbatim>\<open>"Error Message" in data\<close>.
\<close>

datatype response = Raised string | Json body

record quote =
  q_symbol :: string
  q_price :: rat
  q_change_percent :: string
  q_volume :: int
  q_last_updated :: int

datatype perf_entry = PriceChange rat int | PeriodError string

record metrics =
  m_symbol :: string
  m_current_price :: rat
  m_performance :: "(string \<times> perf_entry) list"

record overview =
  o_symbol :: string
  o_name :: string
  o_description :: string
  o_sector :: string
  o_pe_ratio :: string
  o_dividend_yield :: string
  o_market_cap :: string
  o_last_updated :: int

record sector_performance =
  sp_sectors :: "(string \<times> string) list"
  sp_last_updated :: int

datatype data =
    Error string
  | Quote quote
  | Metrics metrics
  | Overview overview
  | SectorPerformance sector_performance

record env =
  clock :: "nat \<Rightarrow> time"
  provider :: "nat \<Rightarrow> params \<Rightarrow> response"

record client =
  api_key :: "string option"
  cache :: "string \<rightharpoonup> time \<times> data"
  ticks :: nat
  requests :: "params list"

definition init :: "string option \<Rightarrow> client" where
  \<comment> \<open>\<^verbatim>\<open>__init__\<close>: the key from the environment variable, an empty cache\<close>
  "init key = \<lparr>api_key = key, cache = Map.empty, ticks = 0, requests = []\<rparr>"

subsection \<open>Clock, provider and cache access\<close>

definition datetime_now :: "env \<Rightarrow> client \<Rightarrow> time \<times> client" where
  "datetime_now e s = (clock e (ticks s), s\<lparr>ticks := Suc (ticks s)\<rparr>)"

definition requests_get :: "env \<Rightarrow> params \<Rightarrow> client \<Rightarrow> response \<times> client" where
  "requests_get e p s = (provider e (length (requests s)) p, s\<lparr>requests := requests s @ [p]\<rparr>)"

definition the_key :: "client \<Rightarrow> string option" where
  \<comment> \<open>\<^verbatim>\<open>not self.api_key\<close> holds for \<^verbatim>\<open>None\<close> and for the empty string\<close>
  "the_key s = (case api_key s of None \<Rightarrow> None | Some k \<Rightarrow> if k = [] then None else Some k)"

definition cache_read :: "env \<Rightarrow> string \<Rightarrow> int \<Rightarrow> client \<Rightarrow> data option \<times> client" where
  \<comment> \<open>the cache check at the head of every operation; the clock is read only when the
      key is in the cache\<close>
  "cache_read e cache_key ttl s =
     (case cache s cache_key of
        None \<Rightarrow> (None, s)
      | Some (timestamp, d) \<Rightarrow>
          (let (now, s1) = datetime_now e s
           in if now - timestamp < ttl then (Some d, s1) else (None, s1)))"

definition cache_write :: "env \<Rightarrow> string \<Rightarrow> data \<Rightarrow> client \<Rightarrow> client" where
  "cache_write e cache_key d s =
     (let (now, s1) = datetime_now e s
      in s1\<lparr>cache := (cache s1)(cache_key \<mapsto> (now, d))\<rparr>)"

subsection \<open>\<^verbatim>\<open>get_stock_price\<close>\<close>

definition get_stock_price :: "env \<Rightarrow> client \<Rightarrow> string \<Rightarrow> data \<times> client" where
  "get_stock_price e s symbol =
     (case the_key s of
        None \<Rightarrow> (Error ''API key not set'', s)
      | Some key \<Rightarrow>
          (let cache_key = ''price_'' @ symbol
           in case cache_read e cache_key (timedelta_hours 1) s of
                (Some d, s1) \<Rightarrow> (d, s1)
              | (None, s1) \<Rightarrow>
                  (case requests_get e \<lparr>p_function = ''GLOBAL_QUOTE'', p_symbol = Some symbol,
                                          p_outputsize = None, p_apikey = key\<rparr> s1 of
                     (Raised msg, s2) \<Rightarrow> (Error msg, s2)
                   | (Json b, s2) \<Rightarrow>
                       (case global_quote b of
                          None \<Rightarrow> (Error (''No data found for symbol '' @ symbol), s2)
                        | Some gq \<Rightarrow>
                            (case price_05 gq of
                               Inl msg \<Rightarrow> (Error msg, s2)
                             | Inr p \<Rightarrow>
                                 (case change_percent_10 gq of
                                    Inl msg \<Rightarrow> (Error msg, s2)
                                  | Inr cp \<Rightarrow>
                                      (case volume_06 gq of
                                         Inl msg \<Rightarrow> (Error msg, s2)
                                       | Inr v \<Rightarrow>
                                           (let (now, s3) = datetime_now e s2;
                                                result = Quote \<lparr>q_symbol = symbol, q_price = p,
                                                           q_change_percent = cp, q_volume = v,
                                                           q_last_updated = strftime now\<rparr>
                                            in (result, cache_write e cache_key result s3)))))))))"

subsection \<open>\<^verbatim>\<open>get_performance_metrics\<close>\<close>

definition periods :: "(string \<times> int) list" where
  "periods = [(''1mo'', 30), (''3mo'', 90), (''6mo'', 180), (''1yr'', 365)]"

fun min_from :: "('a \<Rightarrow> int) \<Rightarrow> 'a \<Rightarrow> 'a list \<Rightarrow> 'a" where
  "min_from f best [] = best"
| "min_from f best (x # xs) = min_from f (if f x < f best then x else best) xs"

definition py_min :: "('a \<Rightarrow> int) \<Rightarrow> 'a list \<Rightarrow> 'a option" where
  \<comment> \<open>\<^verbatim>\<open>min(xs, key=f)\<close>: the first element with the least key; \<open>None\<close> is the
      \<^verbatim>\<open>ValueError\<close> on an empty list\<close>
  "py_min f xs = (case xs of [] \<Rightarrow> None | x # rest \<Rightarrow> Some (min_from f x rest))"

definition sorted_reverse :: "(int \<times> 'v) list \<Rightarrow> int list" where
  \<comment> \<open>\<^verbatim>\<open>sorted(time_series.keys(), reverse=True)\<close>\<close>
  "sorted_reverse ts = rev (sort (remdups (map fst ts)))"

definition day_distance :: "int \<Rightarrow> int \<Rightarrow> int" where
  \<comment> \<open>\<^verbatim>\<open>abs((strptime(x) - strptime(target_date)).days)\<close>\<close>
  "day_distance target_date x = \<bar>x - target_date\<bar>"

definition no_data_7 :: string where
  "no_data_7 = ''No data available within 7 days of target date''"

fun performance_loop ::
  "env \<Rightarrow> (int \<times> rat field) list \<Rightarrow> int list \<Rightarrow> rat \<Rightarrow> (string \<times> int) list \<Rightarrow>
   (string \<times> perf_entry) list \<Rightarrow> client \<Rightarrow> (string \<times> perf_entry) list field \<times> client" where
  "performance_loop e time_series dates current_price [] performance s = (Inr performance, s)"
| "performance_loop e time_series dates current_price ((period_name, days) # rest) performance s =
     (let (now, s1) = datetime_now e s;
          target_date = date_of (now - timedelta_days days)
      in case py_min (day_distance target_date) dates of
           None \<Rightarrow> (Inl ''min() arg is an empty sequence'', s1)
         | Some closest_date \<Rightarrow>
             if day_distance target_date closest_date \<le> 7 then
               (case map_of time_series closest_date of
                  None \<Rightarrow> (Inl ''KeyError'', s1)
                | Some (Inl msg) \<Rightarrow> (Inl msg, s1)
                | Some (Inr past_price) \<Rightarrow>
                    if past_price = 0 then (Inl ''float division by zero'', s1)
                    else
                      (let percent_change = ((current_price - past_price) / past_price) * 100
                       in performance_loop e time_series dates current_price rest
                            (performance @
                               [(period_name, PriceChange (py_round2 percent_change) closest_date)])
                            s1))
             else
               performance_loop e time_series dates current_price rest
                 (performance @ [(period_name, PeriodError no_data_7)]) s1)"

definition get_performance_metrics :: "env \<Rightarrow> client \<Rightarrow> string \<Rightarrow> data \<times> client" where
  "get_performance_metrics e s symbol =
     (case the_key s of
        None \<Rightarrow> (Error ''API key not set'', s)
      | Some key \<Rightarrow>
          (let cache_key = ''metrics_'' @ symbol
           in case cache_read e cache_key (timedelta_hours 6) s of
                (Some d, s1) \<Rightarrow> (d, s1)
              | (None, s1) \<Rightarrow>
                  (case requests_get e \<lparr>p_function = ''TIME_SERIES_DAILY'', p_symbol = Some symbol,
                                          p_outputsize = Some ''full'', p_apikey = key\<rparr> s1 of
                     (Raised msg, s2) \<Rightarrow> (Error msg, s2)
                   | (Json b, s2) \<Rightarrow>
                       (case time_series_daily b of
                          None \<Rightarrow> (Error (''No data found for symbol '' @ symbol), s2)
                        | Some time_series \<Rightarrow>
                            if time_series = [] then
                              (Error (''No data found for symbol '' @ symbol), s2)
                            else
                              (let dates = sorted_reverse time_series
                               in case dates of
                                    [] \<Rightarrow> (Error ''list index out of range'', s2)
                                  | newest # _ \<Rightarrow>
                                      (case map_of time_series newest of
                                         None \<Rightarrow> (Error ''KeyError'', s2)
                                       | Some (Inl msg) \<Rightarrow> (Error msg, s2)
                                       | Some (Inr current_price) \<Rightarrow>
                                           (case performance_loop e time_series dates current_price
                                                   periods [] s2 of
                                              (Inl msg, s3) \<Rightarrow> (Error msg, s3)
                                            | (Inr performance, s3) \<Rightarrow>
                                                (let result = Metrics \<lparr>m_symbol = symbol,
                                                       m_current_price = current_price,
                                                       m_performance = performance\<rparr>
                                                 in (result, cache_write e cache_key result s3)))))))))"

subsection \<open>\<^verbatim>\<open>get_etf_overview\<close> and \<^verbatim>\<open>get_sector_performance\<close>\<close>

definition get_default :: "'a option \<Rightarrow> 'a \<Rightarrow> 'a" where
  \<comment> \<open>\<^verbatim>\<open>data.get(key, default)\<close>\<close>
  "get_default v d = (case v of None \<Rightarrow> d | Some x \<Rightarrow> x)"

definition get_etf_overview :: "env \<Rightarrow> client \<Rightarrow> string \<Rightarrow> data \<times> client" where
  "get_etf_overview e s symbol =
     (case the_key s of
        None \<Rightarrow> (Error ''API key not set'', s)
      | Some key \<Rightarrow>
          (let cache_key = ''overview_'' @ symbol
           in case cache_read e cache_key (timedelta_hours 24) s of
                (Some d, s1) \<Rightarrow> (d, s1)
              | (None, s1) \<Rightarrow>
                  (case requests_get e \<lparr>p_function = ''OVERVIEW'', p_symbol = Some symbol,
                                          p_outputsize = None, p_apikey = key\<rparr> s1 of
                     (Raised msg, s2) \<Rightarrow> (Error msg, s2)
                   | (Json b, s2) \<Rightarrow>
                       if is_empty b \<or> error_message b then
                         (Error (''No overview data found for symbol '' @ symbol), s2)
                       else
                         (let (now, s3) = datetime_now e s2;
                              result = Overview \<lparr>o_symbol = symbol,
                                o_name = get_default (ov_name b) ''Unknown'',
                                o_description =
                                  get_default (ov_description b) ''No description available'',
                                o_sector = get_default (ov_sector b) ''Various'',
                                o_pe_ratio = get_default (ov_pe_ratio b) ''N/A'',
                                o_dividend_yield = get_default (ov_dividend_yield b) ''N/A'',
                                o_market_cap = get_default (ov_market_cap b) ''N/A'',
                                o_last_updated = strftime now\<rparr>
                          in (result, cache_write e cache_key result s3)))))"

definition get_sector_performance :: "env \<Rightarrow> client \<Rightarrow> data \<times> client" where
  "get_sector_performance e s =
     (case the_key s of
        None \<Rightarrow> (Error ''API key not set'', s)
      | Some key \<Rightarrow>
          (let cache_key = ''sector_performance''
           in case cache_read e cache_key (timedelta_hours 6) s of
                (Some d, s1) \<Rightarrow> (d, s1)
              | (None, s1) \<Rightarrow>
                  (case requests_get e \<lparr>p_function = ''SECTOR'', p_symbol = None,
                                          p_outputsize = None, p_apikey = key\<rparr> s1 of
                     (Raised msg, s2) \<Rightarrow> (Error msg, s2)
                   | (Json b, s2) \<Rightarrow>
                       (case rank_a b of
                          None \<Rightarrow> (Error ''No sector performance data available'', s2)
                        | Some sectors \<Rightarrow>
                            (let (now, s3) = datetime_now e s2;
                                 result = SectorPerformance \<lparr>sp_sectors = sectors,
                                            sp_last_updated = strftime now\<rparr>
                             in (result, cache_write e cache_key result s3))))))"

subsection \<open>\<^verbatim>\<open>analyze_etf_for_investment\<close>\<close>

record analysis =
  a_symbol :: string
  a_current_price :: rat
  a_performance :: "(string \<times> perf_entry) list"
  a_risk_score :: int
  a_volatility :: rat
  a_risk_match :: bool
  a_recommendation :: string

datatype analysis_result = AnalysisError string "string option" | Analysis analysis

datatype exn = KeyError string

definition error_of :: "data \<Rightarrow> string option" where
  \<comment> \<open>\<^verbatim>\<open>d.get("error")\<close>; \<open>"error" in d\<close> is \<open>error_of d \<noteq> None\<close>\<close>
  "error_of d = (case d of Error msg \<Rightarrow> Some msg | _ \<Rightarrow> None)"

definition py_or :: "string option \<Rightarrow> string option \<Rightarrow> string option" where
  \<comment> \<open>\<^verbatim>\<open>a or b\<close>: \<^verbatim>\<open>None\<close> and the empty string are false\<close>
  "py_or a b = (case a of None \<Rightarrow> b | Some x \<Rightarrow> if x = [] then b else a)"

fun price_change_percent :: "perf_entry \<Rightarrow> rat option" where
  "price_change_percent (PriceChange v d) = Some v"
| "price_change_percent (PeriodError msg) = None"

definition performances_of :: "(string \<times> perf_entry) list \<Rightarrow> rat list" where
  \<comment> \<open>\<^verbatim>\<open>[v["price_change_percent"] for k, v in items() if "price_change_percent" in v]\<close>\<close>
  "performances_of performance = List.map_filter (\<lambda>(k, v). price_change_percent v) performance"

fun py_max :: "rat list \<Rightarrow> rat" where
  "py_max [] = 0"
| "py_max [x] = x"
| "py_max (x # y # ys) = max x (py_max (y # ys))"

fun py_min_list :: "rat list \<Rightarrow> rat" where
  "py_min_list [] = 0"
| "py_min_list [x] = x"
| "py_min_list (x # y # ys) = min x (py_min_list (y # ys))"

text \<open>Both are called on non-empty lists only: the empty case is guarded by the caller.\<close>

definition risk_matches :: "string \<Rightarrow> int \<Rightarrow> bool" where
  "risk_matches risk_tolerance risk_score =
     (if risk_tolerance = ''low'' \<and> risk_score \<le> 4 then True
      else if risk_tolerance = ''medium'' \<and> risk_score > 3 \<and> risk_score \<le> 7 then True
      else if risk_tolerance = ''high'' \<and> risk_score > 6 then True
      else False)"

definition recommend :: "(string \<times> perf_entry) list \<Rightarrow> bool \<Rightarrow> string" where
  "recommend performance risk_match =
     (let yearly_performance =
            (case map_of performance ''1yr'' of None \<Rightarrow> None | Some v \<Rightarrow> price_change_percent v)
      in case yearly_performance of
           None \<Rightarrow> ''hold''
         | Some y \<Rightarrow>
             if y = 0 then ''hold''
             else if y > 15 \<and> risk_match then ''buy''
             else if y < - 10 then ''avoid''
             else ''hold'')"

definition analyze_etf_for_investment ::
  "env \<Rightarrow> client \<Rightarrow> string \<Rightarrow> string \<Rightarrow> (exn + analysis_result) \<times> client" where
  "analyze_etf_for_investment e s symbol risk_tolerance =
     (let (metrics, s1) = get_performance_metrics e s symbol;
          (price_data, s2) = get_stock_price e s1 symbol
      in if error_of metrics \<noteq> None \<or> error_of price_data \<noteq> None then
           (Inr (AnalysisError symbol (py_or (error_of metrics) (error_of price_data))), s2)
         else
           (case metrics of
              Metrics m \<Rightarrow>
                (let performances = performances_of (m_performance m)
                 in if performances = [] then
                      (Inr (AnalysisError symbol (Some ''Insufficient performance data'')), s2)
                    else
                      (let volatility = py_max performances - py_min_list performances;
                           risk_score = min 10 (max 1 (py_round (volatility / 5)));
                           risk_match = risk_matches risk_tolerance risk_score
                       in case price_data of
                            Quote q \<Rightarrow>
                              (Inr (Analysis \<lparr>a_symbol = symbol,
                                      a_current_price = q_price q,
                                      a_performance = m_performance m,
                                      a_risk_score = risk_score,
                                      a_volatility = py_round2 volatility,
                                      a_risk_match = risk_match,
                                      a_recommendation =
                                        recommend (m_performance m) risk_match\<rparr>), s2)
                          | _ \<Rightarrow> (Inl (KeyError ''price''), s2)))
            | _ \<Rightarrow> (Inl (KeyError ''performance''), s2)))"

text \<open>
  The two \<open>KeyError\<close> branches are what Python does when a value of the wrong shape comes
  back from the shared cache; they are unreachable from \<^const>\<open>init\<close>.
\<close>

subsection \<open>\<^verbatim>\<open>evaluate_portfolio_symbols\<close>\<close>








subsection \<open>\<^verbatim>\<open>extract_json_response\<close> and \<^verbatim>\<open>process_feedback\<close>\<close>

datatype json =
    JNull
  | JBool bool
  | JNumber int
  | JString string
  | JArray "json list"
  | JObject "(string \<times> json) list"

fun str_find :: "char \<Rightarrow> string \<Rightarrow> int" where
  \<comment> \<open>\<^verbatim>\<open>s.find(c)\<close>: the least index of \<open>c\<close>, or \<open>-1\<close>\<close>
  "str_find c [] = - 1"
| "str_find c (x # xs) = (if x = c then 0 else (let r = str_find c xs in if r < 0 then - 1 else r + 1))"

definition str_rfind :: "char \<Rightarrow> string \<Rightarrow> int" where
  \<comment> \<open>\<^verbatim>\<open>s.rfind(c)\<close>: the greatest index of \<open>c\<close>, or \<open>-1\<close>\<close>
  "str_rfind c s = (let r = str_find c (rev s) in if r < 0 then - 1 else int (length s) - 1 - r)"

definition slice :: "string \<Rightarrow> int \<Rightarrow> int \<Rightarrow> string" where
  \<comment> \<open>\<^verbatim>\<open>s[a:b]\<close> for \<open>0 \<le> a \<le> b\<close>, the only case the callers reach\<close>
  "slice s a b = take (nat b - nat a) (drop (nat a) s)"

text \<open>
  \<^verbatim>\<open>json.loads\<close> is a parameter \<open>loads\<close>: \<open>None\<close> is the exception it raises on a
  text that is not JSON. The language-model call is a parameter \<open>agent\<close> from the message
  to the reply, \<^verbatim>\<open>json.dumps\<close> a parameter \<open>dumps\<close>.
\<close>

definition extract_json_response :: "(string \<Rightarrow> json option) \<Rightarrow> string \<Rightarrow> json option" where
  "extract_json_response loads resonse_string =
     (let json_start = str_find CHR ''{'' resonse_string;
          json_end = str_rfind CHR ''}'' resonse_string + 1
      in if json_start \<ge> 0 \<and> json_end > json_start then
           loads (slice resonse_string json_start json_end)
         else None)"

definition default_analysis :: json where
  "default_analysis =
     JObject [(''feedback_analysis'', JString ''Unable to analyze feedback properly.''),
              (''risk_adjustment'', JString ''no change''),
              (''preference_changes'', JArray []),
              (''strategy_adjustments'', JArray [])]"

definition feedback_message :: "(json \<Rightarrow> string) \<Rightarrow> string \<Rightarrow> json \<Rightarrow> json \<Rightarrow> string" where
  "feedback_message dumps user_feedback structured_goal strategy =
     [CHR 0x0A] @ ''        Process this feedback on an investment recommendation:'' @ [CHR 0x0A]
     @ ''        '' @ [CHR 0x0A]
     @ ''        Original Goal: '' @ dumps structured_goal @ [CHR 0x0A]
     @ ''        Recommended Strategy: '' @ dumps strategy @ [CHR 0x0A]
     @ ''        User Feedback: '' @ user_feedback @ [CHR 0x0A]
     @ ''        ''"

definition process_feedback ::
  "(string \<Rightarrow> string) \<Rightarrow> (json \<Rightarrow> string) \<Rightarrow> (string \<Rightarrow> json option) \<Rightarrow>
   string \<Rightarrow> json \<Rightarrow> json \<Rightarrow> json" where
  "process_feedback agent dumps loads user_feedback structured_goal strategy =
     (let feedback_response = agent (feedback_message dumps user_feedback structured_goal strategy);
          json_start = str_find CHR ''{'' feedback_response;
          json_end = str_rfind CHR ''}'' feedback_response + 1
      in if json_start \<ge> 0 \<and> json_end > json_start then
           (case loads (slice feedback_response json_start json_end) of
              Some analysis \<Rightarrow> analysis
            | None \<Rightarrow> default_analysis)
         else default_analysis)"

subsection \<open>A parser for a fragment of JSON\<close>

text \<open>
  The theorems about extraction hold for every \<open>loads\<close>. Where a concrete run is
  evaluated, \<open>json_loads\<close> stands for \<^verbatim>\<open>json.loads\<close>: a recursive-descent parser of
  objects, arrays, strings without escapes, integers and the three literals, with white
  space between the tokens. The first argument of the parsing functions bounds the
  nesting; the length of the text is always enough.
\<close>

definition is_space :: "char \<Rightarrow> bool" where
  "is_space c \<longleftrightarrow> c = CHR '' '' \<or> c = CHR 0x0A \<or> c = CHR 0x0D \<or> c = CHR 0x09"

definition skip_ws :: "string \<Rightarrow> string" where
  "skip_ws = dropWhile is_space"

definition is_digit :: "char \<Rightarrow> bool" where
  "is_digit c \<longleftrightarrow> c \<in> set ''0123456789''"

definition digit_value :: "char \<Rightarrow> int" where
  "digit_value c = int (of_char c) - 48"

fun parse_chars :: "string \<Rightarrow> (string \<times> string) option" where
  "parse_chars [] = None"
| "parse_chars (c # cs) =
     (if c = CHR 0x22 then Some ([], cs)
      else if c = CHR 0x5C then None
      else map_option (\<lambda>(str, rest). (c # str, rest)) (parse_chars cs))"

definition parse_digits :: "string \<Rightarrow> (int \<times> string) option" where
  "parse_digits s =
     (let ds = takeWhile is_digit s
      in if ds = [] \<or> (length ds > 1 \<and> hd ds = CHR ''0'') then None
         else Some (foldl (\<lambda>n c. 10 * n + digit_value c) 0 ds, dropWhile is_digit s))"

definition parse_atom :: "string \<Rightarrow> (json \<times> string) option" where
  "parse_atom s =
     (if take 4 s = ''true'' then Some (JBool True, drop 4 s)
      else if take 5 s = ''false'' then Some (JBool False, drop 5 s)
      else if take 4 s = ''null'' then Some (JNull, drop 4 s)
      else if take 1 s = ''-'' then map_option (\<lambda>(n, rest). (JNumber (- n), rest)) (parse_digits (drop 1 s))
      else map_option (\<lambda>(n, rest). (JNumber n, rest)) (parse_digits s))"

fun parse_value :: "nat \<Rightarrow> string \<Rightarrow> (json \<times> string) option"
  and parse_elements :: "nat \<Rightarrow> string \<Rightarrow> (json list \<times> string) option"
  and parse_members :: "nat \<Rightarrow> string \<Rightarrow> ((string \<times> json) list \<times> string) option" where
  "parse_value 0 s = None"
| "parse_value (Suc n) s =
     (case s of
        [] \<Rightarrow> None
      | c # cs \<Rightarrow>
          if c = CHR ''{'' then
            (if take 1 (skip_ws cs) = ''}'' then Some (JObject [], drop 1 (skip_ws cs))
             else map_option (\<lambda>(kvs, rest). (JObject kvs, rest)) (parse_members n (skip_ws cs)))
          else if c = CHR ''['' then
            (if take 1 (skip_ws cs) = '']'' then Some (JArray [], drop 1 (skip_ws cs))
             else map_option (\<lambda>(vs, rest). (JArray vs, rest)) (parse_elements n (skip_ws cs)))
          else if c = CHR 0x22 then map_option (\<lambda>(str, rest). (JString str, rest)) (parse_chars cs)
          else parse_atom s)"
| "parse_elements 0 s = None"
| "parse_elements (Suc n) s =
     (case parse_value n s of
        None \<Rightarrow> None
      | Some (v, r1) \<Rightarrow>
          (let r2 = skip_ws r1
           in if take 1 r2 = '','' then
                map_option (\<lambda>(vs, rest). (v # vs, rest)) (parse_elements n (skip_ws (drop 1 r2)))
              else if take 1 r2 = '']'' then Some ([v], drop 1 r2)
              else None))"
| "parse_members 0 s = None"
| "parse_members (Suc n) s =
     (if take 1 s = [CHR 0x22] then
        (case parse_chars (drop 1 s) of
           None \<Rightarrow> None
         | Some (k, r1) \<Rightarrow>
             (if take 1 (skip_ws r1) = '':'' then
                (case parse_value n (skip_ws (drop 1 (skip_ws r1))) of
                   None \<Rightarrow> None
                 | Some (v, r2) \<Rightarrow>
                     (let r3 = skip_ws r2
                      in if take 1 r3 = '','' then
                           map_option (\<lambda>(kvs, rest). ((k, v) # kvs, rest))
                             (parse_members n (skip_ws (drop 1 r3)))
                         else if take 1 r3 = ''}'' then Some ([(k, v)], drop 1 r3)
                         else None))
              else None))
      else None)"

definition json_loads :: "string \<Rightarrow> json option" where
  "json_loads s =
     (case parse_value (Suc (length s)) (skip_ws s) of
        None \<Rightarrow> None
      | Some (v, rest) \<Rightarrow> if skip_ws rest = [] then Some v else None)"

subsection \<open>Sample data for concrete runs\<close>

definition no_body :: body where
  "no_body = \<lparr>global_quote = None, time_series_daily = None, is_empty = False,
     error_message = False, ov_name = None, ov_description = None, ov_sector = None,
     ov_pe_ratio = None, ov_dividend_yield = None, ov_market_cap = None, rank_a = None\<rparr>"

definition day :: "int \<Rightarrow> time" where
  "day n = n * 86400000000"

definition sample_series :: "(int \<times> rat field) list" where
  "sample_series = [(1000, Inr 102), (970, Inr 100), (910, Inr (10303 / 100)),
                    (820, Inr (9903 / 100)), (635, Inr (8644 / 100))]"

definition sample_quote :: raw_quote where
  "sample_quote = \<lparr>price_05 = Inr 102, volume_06 = Inr 5000, change_percent_10 = Inr ''0.5%''\<rparr>"

definition sample_provider :: "nat \<Rightarrow> params \<Rightarrow> response" where
  "sample_provider n p =
     (if p_function p = ''TIME_SERIES_DAILY'' then
        Json (no_body\<lparr>time_series_daily := Some sample_series\<rparr>)
      else if p_function p = ''GLOBAL_QUOTE'' then
        Json (no_body\<lparr>global_quote := Some sample_quote\<rparr>)
      else Raised ''unreachable'')"

definition sample_env :: env where
  "sample_env = \<lparr>clock = (\<lambda>n. day 1000 + int n * 1000000), provider = sample_provider\<rparr>"

definition sample_performance :: "(string \<times> perf_entry) list" where
  "sample_performance =
     [(''1mo'', PriceChange 2 970), (''3mo'', PriceChange (- 1) 910),
      (''6mo'', PriceChange 3 820), (''1yr'', PriceChange 18 635)]"

definition sample_metrics :: metrics where
  "sample_metrics =
     \<lparr>m_symbol = ''SPY'', m_current_price = 102, m_performance = sample_performance\<rparr>"

definition sample_analysis :: analysis where
  "sample_analysis =
     \<lparr>a_symbol = ''SPY'', a_current_price = 102, a_performance = sample_performance,
      a_risk_score = 4, a_volatility = 19, a_risk_match = True, a_recommendation = ''buy''\<rparr>"

definition failing_env :: env where
  \<comment> \<open>a provider that cannot be reached\<close>
  "failing_env = \<lparr>clock = (\<lambda>n. day 1000 + int n * 1000000),
                   provider = (\<lambda>n p. Raised ''connection refused'')\<rparr>"

definition quote_params :: "string \<Rightarrow> string \<Rightarrow> params" where
  "quote_params key symbol =
     \<lparr>p_function = ''GLOBAL_QUOTE'', p_symbol = Some symbol, p_outputsize = None, p_apikey = key\<rparr>"









subsection \<open>The risk match as the specification words it\<close>

definition spec_risk_match :: "string \<Rightarrow> int \<Rightarrow> bool" where
  "spec_risk_match risk_tolerance risk_score \<longleftrightarrow>
     risk_tolerance = ''low'' \<and> risk_score \<le> 4
     \<or> risk_tolerance = ''medium'' \<and> 4 < risk_score \<and> risk_score \<le> 7
     \<or> risk_tolerance = ''high'' \<and> risk_score > 6"

definition malformed_agent :: "string \<Rightarrow> string" where
  \<comment> \<open>a model reply with braces that do not enclose JSON\<close>
  "malformed_agent message = ''Consider {lower risk} next time.''"

definition plain_dumps :: "json \<Rightarrow> string" where
  \<comment> \<open>stands for \<^verbatim>\<open>json.dumps\<close> in the concrete runs, where the reply does not depend
      on the message\<close>
  "plain_dumps j = (case j of JObject [] \<Rightarrow> ''{}'' | _ \<Rightarrow> ''null'')"



subsection \<open>The invariant of the cache\<close>

definition rounded2 :: "rat \<Rightarrow> bool" where
  \<comment> \<open>a number with at most two decimals\<close>
  "rounded2 v \<longleftrightarrow> py_round2 v = v"

definition data_ok :: "data \<Rightarrow> bool" where
  "data_ok d =
     (case d of
        Error msg \<Rightarrow> False
      | Metrics m \<Rightarrow> list_all rounded2 (performances_of (m_performance m))
      | _ \<Rightarrow> True)"

definition cache_ok :: "client \<Rightarrow> bool" where
  \<comment> \<open>no cached value is an error, and cached price changes have two decimals; it holds
      of \<^const>\<open>init\<close> and every operation keeps it\<close>
  "cache_ok s \<longleftrightarrow> (\<forall>k t d. cache s k = Some (t, d) \<longrightarrow> data_ok d)"

subsection \<open>The four cached operations\<close>

definition operations ::
  "string \<Rightarrow> (string \<times> int \<times> (env \<Rightarrow> client \<Rightarrow> data \<times> client)) list" where
  \<comment> \<open>each operation of the client with its cache key and its freshness window\<close>
  "operations symbol =
     [(''price_'' @ symbol, timedelta_hours 1, \<lambda>e s. get_stock_price e s symbol),
      (''metrics_'' @ symbol, timedelta_hours 6, \<lambda>e s. get_performance_metrics e s symbol),
      (''overview_'' @ symbol, timedelta_hours 24, \<lambda>e s. get_etf_overview e s symbol),
      (''sector_performance'', timedelta_hours 6, get_sector_performance)]"

definition cached_operation ::
  "string \<Rightarrow> int \<Rightarrow> (env \<Rightarrow> client \<Rightarrow> data \<times> client) \<Rightarrow> bool" where
  \<comment> \<open>the shape the four operations share: the credential check, the cache check, and on
      a miss one request whose result is cached only if it is not an error\<close>
  "cached_operation k ttl op \<longleftrightarrow>
     (\<forall>e s.
        ticks s \<le> ticks (snd (op e s)) \<and>
        the_key (snd (op e s)) = the_key s \<and>
        (the_key s = None \<longrightarrow> op e s = (Error ''API key not set'', s)) \<and>
        (the_key s \<noteq> None \<longrightarrow>
           (\<forall>d. fst (cache_read e k ttl s) = Some d \<longrightarrow>
                  op e s = (d, snd (cache_read e k ttl s))) \<and>
           (fst (cache_read e k ttl s) = None \<longrightarrow>
              length (requests (snd (op e s))) = Suc (length (requests s)) \<and>
              (cache (snd (op e s)) = cache s \<or>
               data_ok (fst (op e s)) \<and>
               (\<exists>t. cache (snd (op e s)) = (cache s)(k \<mapsto> (t, fst (op e s))))))))"

subsection \<open>The rule of a horizon\<close>




subsection \<open>The analyses of a portfolio, one after the other\<close>

fun analyze_each ::
  "env \<Rightarrow> string \<Rightarrow> string list \<Rightarrow> client \<Rightarrow> (exn + analysis_result list) \<times> client" where
  "analyze_each e risk_tolerance [] s = (Inr [], s)"
| "analyze_each e risk_tolerance (symbol # symbols) s =
     (case analyze_etf_for_investment e s symbol risk_tolerance of
        (Inl x, s1) \<Rightarrow> (Inl x, s1)
      | (Inr r, s1) \<Rightarrow>
          (case analyze_each e risk_tolerance symbols s1 of
             (Inl x, s2) \<Rightarrow> (Inl x, s2)
           | (Inr rs, s2) \<Rightarrow> (Inr (r # rs), s2)))"

definition valid_analyses :: "analysis_result list \<Rightarrow> analysis list" where
  \<comment> \<open>the analyses that are not errors\<close>
  "valid_analyses rs = List.map_filter (\<lambda>r. case r of Analysis a \<Rightarrow> Some a | _ \<Rightarrow> None) rs"



section \<open>Properties\<close>

subsection \<open>Extraction of the embedded JSON object\<close>

lemma str_find_first: "c \<notin> set pre \<Longrightarrow> str_find c (pre @ c # rest) = int (length pre)"
  by (induction pre) (auto simp: Let_def)

lemma str_rfind_last: "c \<notin> set post \<Longrightarrow> str_rfind c (xs @ c # post) = int (length xs)"
  using str_find_first [of c "rev post" "rev xs"] by (simp add: str_rfind_def)

lemma slice_middle: "slice (before @ mid @ after) (int (length before)) (int (length before) + int (length mid)) = mid"
  by (simp add: slice_def nat_add_distrib)

text \<open>
  C3 (as amended). When the prose before the object contains no opening brace and the
  prose after it contains no closing brace, the extraction hands exactly the text of the
  object to the parser and returns what the parser returns: the embedded object whenever
  that text is well-formed JSON.
\<close>

theorem extract_between:
  assumes "CHR ''{'' \<notin> set before" and "CHR ''}'' \<notin> set after"
  shows "extract_json_response loads (before @ CHR ''{'' # inner @ CHR ''}'' # after)
         = loads (CHR ''{'' # inner @ [CHR ''}''])"
proof -
  let ?text = "before @ CHR ''{'' # inner @ CHR ''}'' # after"
  have a: "str_find CHR ''{'' ?text = int (length before)"
    using assms(1) by (rule str_find_first)
  have "str_rfind CHR ''}'' ((before @ CHR ''{'' # inner) @ CHR ''}'' # after)
        = int (length (before @ CHR ''{'' # inner))"
    using assms(2) by (rule str_rfind_last)
  then have b: "str_rfind CHR ''}'' ?text = int (length before) + int (length inner) + 1"
    by simp
  have "slice (before @ (CHR ''{'' # inner @ [CHR ''}'']) @ after) (int (length before))
          (int (length before) + int (length (CHR ''{'' # inner @ [CHR ''}'']))) = CHR ''{'' # inner @ [CHR ''}'']"
    by (rule slice_middle)
  then have c: "slice ?text (int (length before)) (int (length before) + int (length inner) + 1 + 1)
          = CHR ''{'' # inner @ [CHR ''}'']"
    by (simp add: algebra_simps)
  show ?thesis
    using c by (simp add: extract_json_response_def Let_def a b algebra_simps)
qed

theorem extract_between_witness:
  \<open>CHR ''{'' \<notin> set ''Here is the plan: '' \<and> CHR ''}'' \<notin> set ''. Done.'' \<and>
   extract_json_response json_loads ''Here is the plan: {"a": 1}. Done.''
     = Some (JObject [(''a'', JNumber 1)])\<close>
proof -
  have h1: "CHR ''{'' \<notin> set ''Here is the plan: ''" by simp
  have h2: "CHR ''}'' \<notin> set ''. Done.''" by simp
  have h3: \<open>json_loads ''{"a": 1}'' = Some (JObject [(''a'', JNumber 1)])\<close> by code_simp
  show ?thesis
    using extract_between [OF h1 h2, of json_loads \<open>''"a": 1''\<close>] h1 h2 h3 by simp
qed

text \<open>
  C3 as stated fails: the text below contains the well-formed object \<^verbatim>\<open>{"a": 1}\<close>,
  but the span from the first opening brace to the last closing brace starts in the prose,
  so nothing is extracted.
\<close>

theorem extract_counterexample:
  \<open>''Use {braces}: {"a": 1}'' = ''Use {braces}: '' @ ''{"a": 1}'' @ '''' \<and>
   json_loads ''{"a": 1}'' = Some (JObject [(''a'', JNumber 1)]) \<and>
   extract_json_response json_loads ''Use {braces}: {"a": 1}'' = None\<close>
  by code_simp

subsection \<open>Missing credential\<close>

text \<open>
  C9. When no API credential is configured (the key is absent or the empty string), each
  of the four client operations returns the error value "API key not set" and leaves the
  whole client state as it was: no request is logged, the cache is not written and the
  clock is not read.
\<close>

theorem api_key_not_set:
  assumes "api_key s = None \<or> api_key s = Some []"
  shows "get_stock_price e s symbol = (Error ''API key not set'', s) \<and>
         get_performance_metrics e s symbol = (Error ''API key not set'', s) \<and>
         get_etf_overview e s symbol = (Error ''API key not set'', s) \<and>
         get_sector_performance e s = (Error ''API key not set'', s)"
proof -
  from assms have "the_key s = None"
    by (auto simp: the_key_def)
  then show ?thesis
    by (simp add: get_stock_price_def get_performance_metrics_def get_etf_overview_def
        get_sector_performance_def)
qed

theorem api_key_not_set_witness:
  "(api_key (init None) = None \<or> api_key (init None) = Some []) \<and>
   get_stock_price sample_env (init None) ''SPY'' = (Error ''API key not set'', init None) \<and>
   get_performance_metrics sample_env (init None) ''SPY'' = (Error ''API key not set'', init None) \<and>
   get_etf_overview sample_env (init None) ''SPY'' = (Error ''API key not set'', init None) \<and>
   get_sector_performance sample_env (init None) = (Error ''API key not set'', init None)"
proof -
  have h: "api_key (init None) = None \<or> api_key (init None) = Some []"
    by (simp add: init_def)
  show ?thesis
    using h api_key_not_set [OF h, of sample_env "''SPY''"] by simp
qed

subsection \<open>Risk match\<close>

lemma analysis_fields:
  assumes "fst (analyze_etf_for_investment e s symbol risk_tolerance) = Inr (Analysis a)"
  shows "\<exists>m s1. get_performance_metrics e s symbol = (Metrics m, s1) \<and>
           performances_of (m_performance m) \<noteq> [] \<and>
           a_performance a = m_performance m \<and>
           a_volatility a = py_round2 (py_max (performances_of (m_performance m))
                                       - py_min_list (performances_of (m_performance m))) \<and>
           a_risk_score a = min 10 (max 1 (py_round ((py_max (performances_of (m_performance m))
                                       - py_min_list (performances_of (m_performance m))) / 5))) \<and>
           a_risk_match a = risk_matches risk_tolerance (a_risk_score a) \<and>
           a_recommendation a = recommend (m_performance m) (a_risk_match a)"
  using assms unfolding analyze_etf_for_investment_def
  by (auto simp: Let_def split: prod.splits if_splits data.splits)

text \<open>
  C1 (as amended). For every analysis that \<open>analyze_etf_for_investment\<close> returns,
  \<open>risk_match\<close> is true if and only if the tolerance is "low" and the score is at most 4,
  or the tolerance is "medium" and the score is above 3 and at most 7, or the tolerance
  is "high" and the score is above 6.
\<close>

theorem risk_match_iff:
  assumes "fst (analyze_etf_for_investment e s symbol risk_tolerance) = Inr (Analysis a)"
  shows "a_risk_match a \<longleftrightarrow>
           risk_tolerance = ''low'' \<and> a_risk_score a \<le> 4
           \<or> risk_tolerance = ''medium'' \<and> 3 < a_risk_score a \<and> a_risk_score a \<le> 7
           \<or> risk_tolerance = ''high'' \<and> a_risk_score a > 6"
proof -
  from analysis_fields [OF assms]
  have "a_risk_match a = risk_matches risk_tolerance (a_risk_score a)"
    by blast
  then show ?thesis
    by (auto simp: risk_matches_def)
qed

theorem risk_match_iff_witness:
  "fst (analyze_etf_for_investment sample_env (init (Some ''key'')) ''SPY'' ''medium'')
     = Inr (Analysis sample_analysis) \<and>
   (a_risk_match sample_analysis \<longleftrightarrow>
      ''medium'' = ''low'' \<and> a_risk_score sample_analysis \<le> 4
      \<or> ''medium'' = ''medium'' \<and> 3 < a_risk_score sample_analysis \<and> a_risk_score sample_analysis \<le> 7
      \<or> ''medium'' = ''high'' \<and> a_risk_score sample_analysis > 6)"
proof -
  have h: "fst (analyze_etf_for_investment sample_env (init (Some ''key'')) ''SPY'' ''medium'')
             = Inr (Analysis sample_analysis)"
    by code_simp
  show ?thesis
    using h risk_match_iff [OF h] by blast
qed

text \<open>
  C1 as stated fails for the tolerance "medium" at the score 4: the code accepts it
  (\<open>risk_score > 3\<close>), the claim's \<open>4 < risk_score\<close> does not.
\<close>

theorem risk_match_counterexample:
  "fst (analyze_etf_for_investment sample_env (init (Some ''key'')) ''SPY'' ''medium'')
     = Inr (Analysis sample_analysis) \<and>
   a_risk_score sample_analysis = 4 \<and>
   a_risk_match sample_analysis \<and>
   \<not> spec_risk_match ''medium'' (a_risk_score sample_analysis)"
  by code_simp

subsection \<open>The worked example of the analysis\<close>

text \<open>
  C2 (as amended). When the performance fetch returns the four horizons with the values
  1mo = 2, 3mo = -1, 6mo = 3, 1yr = 18 and the quote fetch succeeds, the analysis for the
  tolerance "low" has volatility 18 - (-1) = 19, risk score 4 (the rounding of 19/5),
  \<open>risk_match\<close> true and the recommendation "buy".
\<close>

theorem analyze_example:
  assumes "fst (get_performance_metrics e s symbol) = Metrics m"
    and "m_performance m = [(''1mo'', PriceChange 2 d1), (''3mo'', PriceChange (- 1) d2),
                            (''6mo'', PriceChange 3 d3), (''1yr'', PriceChange 18 d4)]"
    and "fst (get_stock_price e (snd (get_performance_metrics e s symbol)) symbol) = Quote q"
  shows "fst (analyze_etf_for_investment e s symbol ''low'') =
           Inr (Analysis \<lparr>a_symbol = symbol, a_current_price = q_price q,
                  a_performance = m_performance m, a_risk_score = 4, a_volatility = 19,
                  a_risk_match = True, a_recommendation = ''buy''\<rparr>)"
proof -
  have p: "performances_of (m_performance m) = [2, - 1, 3, 18]"
    by (simp add: assms(2) performances_of_def List.map_filter_def)
  have r: "py_round (19 / 5) = 4"
    by code_simp
  have r2: "py_round2 19 = 19"
    by code_simp
  have rec: "recommend (m_performance m) True = ''buy''"
    by (simp add: assms(2) recommend_def)
  show ?thesis
    using assms(1,3)
    by (simp add: analyze_etf_for_investment_def Let_def split_beta error_of_def p r r2 rec
        risk_matches_def)
qed

theorem analyze_example_witness:
  "fst (get_performance_metrics sample_env (init (Some ''key'')) ''SPY'') = Metrics sample_metrics \<and>
   m_performance sample_metrics = [(''1mo'', PriceChange 2 970), (''3mo'', PriceChange (- 1) 910),
                                   (''6mo'', PriceChange 3 820), (''1yr'', PriceChange 18 635)] \<and>
   fst (get_stock_price sample_env
          (snd (get_performance_metrics sample_env (init (Some ''key'')) ''SPY'')) ''SPY'')
     = Quote \<lparr>q_symbol = ''SPY'', q_price = 102, q_change_percent = ''0.5%'', q_volume = 5000,
               q_last_updated = 86400005\<rparr> \<and>
   fst (analyze_etf_for_investment sample_env (init (Some ''key'')) ''SPY'' ''low'') =
     Inr (Analysis \<lparr>a_symbol = ''SPY'', a_current_price = 102,
            a_performance = m_performance sample_metrics, a_risk_score = 4, a_volatility = 19,
            a_risk_match = True, a_recommendation = ''buy''\<rparr>)"
proof -
  have h1: "fst (get_performance_metrics sample_env (init (Some ''key'')) ''SPY'')
              = Metrics sample_metrics"
    by code_simp
  have h2: "m_performance sample_metrics =
              [(''1mo'', PriceChange 2 970), (''3mo'', PriceChange (- 1) 910),
               (''6mo'', PriceChange 3 820), (''1yr'', PriceChange 18 635)]"
    by (simp add: sample_metrics_def sample_performance_def)
  have h3: "fst (get_stock_price sample_env
                   (snd (get_performance_metrics sample_env (init (Some ''key'')) ''SPY'')) ''SPY'')
              = Quote \<lparr>q_symbol = ''SPY'', q_price = 102, q_change_percent = ''0.5%'',
                        q_volume = 5000, q_last_updated = 86400005\<rparr>"
    by code_simp
  show ?thesis
    using h1 h2 h3 analyze_example [OF h1 h2 h3] by simp
qed

text \<open>
  C2 as stated fails: on these four values the maximum is the one-year value 18, so the
  volatility is 19 and the risk score 4, not 4 and 1.
\<close>

theorem analyze_example_counterexample:
  "fst (get_performance_metrics sample_env (init (Some ''key'')) ''SPY'') = Metrics sample_metrics \<and>
   m_performance sample_metrics = [(''1mo'', PriceChange 2 970), (''3mo'', PriceChange (- 1) 910),
                                   (''6mo'', PriceChange 3 820), (''1yr'', PriceChange 18 635)] \<and>
   fst (analyze_etf_for_investment sample_env (init (Some ''key'')) ''SPY'' ''low'')
     = Inr (Analysis sample_analysis) \<and>
   a_volatility sample_analysis \<noteq> 4 \<and>
   a_risk_score sample_analysis \<noteq> 1"
  by code_simp

subsection \<open>Feedback\<close>

text \<open>
  C8. For every goal, strategy and feedback text, when the structured extraction of the
  feedback role's reply fails (no braces in the right order, or a span that the parser
  rejects), \<open>process_feedback\<close> returns the fixed default analysis: \<open>risk_adjustment\<close>
  is "no change" and both change lists are empty.
\<close>

theorem process_feedback_default:
  assumes "extract_json_response loads
             (agent (feedback_message dumps user_feedback structured_goal strategy)) = None"
  shows "process_feedback agent dumps loads user_feedback structured_goal strategy =
           JObject [(''feedback_analysis'', JString ''Unable to analyze feedback properly.''),
                    (''risk_adjustment'', JString ''no change''),
                    (''preference_changes'', JArray []),
                    (''strategy_adjustments'', JArray [])]"
  using assms
  by (auto simp: process_feedback_def extract_json_response_def default_analysis_def Let_def
      split: if_splits)


theorem process_feedback_default_witness:
  "extract_json_response json_loads
     (malformed_agent (feedback_message plain_dumps ''too risky'' (JObject []) (JObject []))) = None \<and>
   process_feedback malformed_agent plain_dumps json_loads ''too risky'' (JObject []) (JObject []) =
     JObject [(''feedback_analysis'', JString ''Unable to analyze feedback properly.''),
              (''risk_adjustment'', JString ''no change''),
              (''preference_changes'', JArray []),
              (''strategy_adjustments'', JArray [])]"
proof -
  have h: "extract_json_response json_loads
             (malformed_agent (feedback_message plain_dumps ''too risky'' (JObject []) (JObject [])))
           = None"
    unfolding malformed_agent_def by code_simp
  show ?thesis
    using h process_feedback_default
      [of json_loads malformed_agent plain_dumps "''too risky''" "JObject []" "JObject []"]
    by simp
qed

subsection \<open>Rounding\<close>

lemma py_round_of_int [simp]: "py_round (of_int n) = n"
  by (simp add: py_round_def)

lemma py_round2_hundredths [simp]: "py_round2 (of_int n / 100) = of_int n / 100"
  by (simp add: py_round2_def)

lemma rounded2_iff: "rounded2 v \<longleftrightarrow> (\<exists>n. v = of_int n / 100)"
proof
  assume "rounded2 v"
  then have "v = of_int (py_round (v * 100)) / 100"
    by (simp add: rounded2_def py_round2_def)
  then show "\<exists>n. v = of_int n / 100" ..
next
  assume "\<exists>n. v = of_int n / 100"
  then obtain n where "v = of_int n / 100" ..
  then show "rounded2 v"
    unfolding rounded2_def by (simp only: py_round2_hundredths)
qed

lemma rounded2_py_round2 [simp]: "rounded2 (py_round2 x)"
  by (auto simp: rounded2_iff py_round2_def)


subsection \<open>Maximum and minimum of a list\<close>





subsection \<open>What the primitive steps change\<close>

lemma datetime_now_simps [simp]:
  "fst (datetime_now e s) = clock e (ticks s)"
  "cache (snd (datetime_now e s)) = cache s"
  "requests (snd (datetime_now e s)) = requests s"
  "api_key (snd (datetime_now e s)) = api_key s"
  "ticks (snd (datetime_now e s)) = Suc (ticks s)"
  by (simp_all add: datetime_now_def)

lemma requests_get_simps [simp]:
  "fst (requests_get e p s) = provider e (length (requests s)) p"
  "cache (snd (requests_get e p s)) = cache s"
  "requests (snd (requests_get e p s)) = requests s @ [p]"
  "api_key (snd (requests_get e p s)) = api_key s"
  "ticks (snd (requests_get e p s)) = ticks s"
  by (simp_all add: requests_get_def)

lemma cache_write_simps [simp]:
  "cache (cache_write e k d s) = (cache s)(k \<mapsto> (clock e (ticks s), d))"
  "requests (cache_write e k d s) = requests s"
  "api_key (cache_write e k d s) = api_key s"
  "ticks (cache_write e k d s) = Suc (ticks s)"
  by (simp_all add: cache_write_def datetime_now_def)

lemma cache_read_simps [simp]:
  "cache (snd (cache_read e k ttl s)) = cache s"
  "requests (snd (cache_read e k ttl s)) = requests s"
  "api_key (snd (cache_read e k ttl s)) = api_key s"
  by (simp_all add: cache_read_def datetime_now_def split: option.splits)

lemma cache_read_Some:
  "fst (cache_read e k ttl s) = Some d \<longleftrightarrow>
     (\<exists>t. cache s k = Some (t, d) \<and> clock e (ticks s) - t < ttl)"
  by (auto simp: cache_read_def datetime_now_def split: option.splits)

lemma the_key_simps [simp]:
  "the_key (snd (datetime_now e s)) = the_key s"
  "the_key (snd (requests_get e p s)) = the_key s"
  "the_key (snd (cache_read e k ttl s)) = the_key s"
  "the_key (cache_write e k d s) = the_key s"
  by (simp_all add: the_key_def)

lemma performances_of_simps [simp]:
  "performances_of [] = []"
  "performances_of (acc @ [(name, PriceChange v d)]) = performances_of acc @ [v]"
  "performances_of (acc @ [(name, PeriodError msg)]) = performances_of acc"
  by (simp_all add: performances_of_def List.map_filter_def)

lemma performance_loop_state:
  "cache (snd (performance_loop e ts dates cur ps acc s)) = cache s \<and>
   requests (snd (performance_loop e ts dates cur ps acc s)) = requests s \<and>
   api_key (snd (performance_loop e ts dates cur ps acc s)) = api_key s"
proof (induction ps arbitrary: acc s)
  case Nil
  show ?case by simp
next
  case (Cons p ps)
  obtain name days where p: "p = (name, days)"
    by (cases p)
  show ?case
    unfolding p
    by (simp add: Let_def split_beta Cons.IH split: option.splits sum.splits)
qed

lemma performance_loop_rounded:
  "fst (performance_loop e ts dates cur ps acc s) = Inr performance \<Longrightarrow>
   list_all rounded2 (performances_of acc) \<Longrightarrow>
   list_all rounded2 (performances_of performance)"
proof (induction ps arbitrary: acc s)
  case Nil
  then show ?case by simp
next
  case (Cons p ps)
  obtain name days where p: "p = (name, days)"
    by (cases p)
  from Cons.prems show ?case
    unfolding p
    by (auto simp: Let_def split_beta split: option.splits sum.splits if_splits
             dest!: Cons.IH)
qed

subsection \<open>The cache invariant is kept\<close>

lemma cache_ok_init: "cache_ok (init key)"
  by (simp add: cache_ok_def init_def)

lemma cache_ok_cong: "cache s' = cache s \<Longrightarrow> cache_ok s' = cache_ok s"
  by (simp add: cache_ok_def)

lemma cache_ok_write: "cache_ok s \<Longrightarrow> data_ok d \<Longrightarrow> cache_ok (cache_write e k d s)"
  by (auto simp: cache_ok_def)

lemma cache_ok_read: "cache_ok s \<Longrightarrow> fst (cache_read e k ttl s) = Some d \<Longrightarrow> data_ok d"
  by (auto simp: cache_ok_def cache_read_Some)

lemma get_stock_price_cache:
  "cache (snd (get_stock_price e s symbol)) = cache s \<or>
   (\<exists>q t. fst (get_stock_price e s symbol) = Quote q \<and>
      cache (snd (get_stock_price e s symbol)) = (cache s)(''price_'' @ symbol \<mapsto> (t, Quote q)))"
  by (auto simp: get_stock_price_def Let_def split_beta
           split: option.splits prod.splits response.splits sum.splits)

lemma get_performance_metrics_cache:
  "cache (snd (get_performance_metrics e s symbol)) = cache s \<or>
   (\<exists>m t. fst (get_performance_metrics e s symbol) = Metrics m \<and>
      list_all rounded2 (performances_of (m_performance m)) \<and>
      cache (snd (get_performance_metrics e s symbol))
        = (cache s)(''metrics_'' @ symbol \<mapsto> (t, Metrics m)))"
proof -
  have loop: "fst (performance_loop e ts dates cur periods [] s2) = Inr perf \<Longrightarrow>
              list_all rounded2 (performances_of perf)" for ts dates cur s2 perf
    by (erule performance_loop_rounded) simp
  show ?thesis
    by (auto simp: get_performance_metrics_def Let_def split_beta performance_loop_state
             split: option.splits prod.splits response.splits sum.splits list.splits
             dest: loop)
qed

lemma get_etf_overview_cache:
  "cache (snd (get_etf_overview e s symbol)) = cache s \<or>
   (\<exists>v t. fst (get_etf_overview e s symbol) = Overview v \<and>
      cache (snd (get_etf_overview e s symbol)) = (cache s)(''overview_'' @ symbol \<mapsto> (t, Overview v)))"
  by (auto simp: get_etf_overview_def Let_def split_beta
           split: option.splits prod.splits response.splits sum.splits)

lemma get_sector_performance_cache:
  "cache (snd (get_sector_performance e s)) = cache s \<or>
   (\<exists>v t. fst (get_sector_performance e s) = SectorPerformance v \<and>
      cache (snd (get_sector_performance e s))
        = (cache s)(''sector_performance'' \<mapsto> (t, SectorPerformance v)))"
  by (auto simp: get_sector_performance_def Let_def split_beta
           split: option.splits prod.splits response.splits sum.splits)

lemma cache_ok_step:
  "cache_ok s \<Longrightarrow>
   cache s' = cache s \<or> (\<exists>d t k. data_ok d \<and> cache s' = (cache s)(k \<mapsto> (t, d))) \<Longrightarrow>
   cache_ok s'"
  by (auto simp: cache_ok_def split: if_splits)

lemma cache_ok_get_stock_price: "cache_ok s \<Longrightarrow> cache_ok (snd (get_stock_price e s symbol))"
proof (erule cache_ok_step)
  from get_stock_price_cache [of e s symbol]
  show "cache (snd (get_stock_price e s symbol)) = cache s \<or>
        (\<exists>d t k. data_ok d \<and> cache (snd (get_stock_price e s symbol)) = (cache s)(k \<mapsto> (t, d)))"
  proof (elim disjE exE conjE)
    fix q t
    assume "cache (snd (get_stock_price e s symbol)) = (cache s)(''price_'' @ symbol \<mapsto> (t, Quote q))"
    moreover have "data_ok (Quote q)" by (simp add: data_ok_def)
    ultimately show ?thesis by blast
  qed simp
qed

lemma cache_ok_get_performance_metrics:
  "cache_ok s \<Longrightarrow> cache_ok (snd (get_performance_metrics e s symbol))"
proof (erule cache_ok_step)
  from get_performance_metrics_cache [of e s symbol]
  show "cache (snd (get_performance_metrics e s symbol)) = cache s \<or>
        (\<exists>d t k. data_ok d \<and>
           cache (snd (get_performance_metrics e s symbol)) = (cache s)(k \<mapsto> (t, d)))"
  proof (elim disjE exE conjE)
    fix m t
    assume "cache (snd (get_performance_metrics e s symbol))
              = (cache s)(''metrics_'' @ symbol \<mapsto> (t, Metrics m))"
      and "list_all rounded2 (performances_of (m_performance m))"
    moreover from this have "data_ok (Metrics m)" by (simp add: data_ok_def)
    ultimately show ?thesis by blast
  qed simp
qed

lemma cache_ok_get_etf_overview: "cache_ok s \<Longrightarrow> cache_ok (snd (get_etf_overview e s symbol))"
proof (erule cache_ok_step)
  from get_etf_overview_cache [of e s symbol]
  show "cache (snd (get_etf_overview e s symbol)) = cache s \<or>
        (\<exists>d t k. data_ok d \<and> cache (snd (get_etf_overview e s symbol)) = (cache s)(k \<mapsto> (t, d)))"
  proof (elim disjE exE conjE)
    fix v t
    assume "cache (snd (get_etf_overview e s symbol))
              = (cache s)(''overview_'' @ symbol \<mapsto> (t, Overview v))"
    moreover have "data_ok (Overview v)" by (simp add: data_ok_def)
    ultimately show ?thesis by blast
  qed simp
qed

lemma cache_ok_get_sector_performance: "cache_ok s \<Longrightarrow> cache_ok (snd (get_sector_performance e s))"
proof (erule cache_ok_step)
  from get_sector_performance_cache [of e s]
  show "cache (snd (get_sector_performance e s)) = cache s \<or>
        (\<exists>d t k. data_ok d \<and> cache (snd (get_sector_performance e s)) = (cache s)(k \<mapsto> (t, d)))"
  proof (elim disjE exE conjE)
    fix v t
    assume "cache (snd (get_sector_performance e s))
              = (cache s)(''sector_performance'' \<mapsto> (t, SectorPerformance v))"
    moreover have "data_ok (SectorPerformance v)" by (simp add: data_ok_def)
    ultimately show ?thesis by blast
  qed simp
qed

lemma analyze_state:
  "snd (analyze_etf_for_investment e s symbol risk_tolerance)
     = snd (get_stock_price e (snd (get_performance_metrics e s symbol)) symbol)"
  by (simp add: analyze_etf_for_investment_def Let_def split_beta split: data.splits)

lemma cache_ok_analyze:
  "cache_ok s \<Longrightarrow> cache_ok (snd (analyze_etf_for_investment e s symbol risk_tolerance))"
  by (simp add: analyze_state cache_ok_get_stock_price cache_ok_get_performance_metrics)


subsection \<open>Volatility and risk score\<close>




subsection \<open>Cache hits and misses of \<open>get_stock_price\<close>\<close>

lemma get_stock_price_hit:
  assumes "the_key s = Some key"
    and "fst (cache_read e (''price_'' @ symbol) (timedelta_hours 1) s) = Some d"
  shows "get_stock_price e s symbol
           = (d, snd (cache_read e (''price_'' @ symbol) (timedelta_hours 1) s))"
  using assms by (simp add: get_stock_price_def split_beta)

lemma get_stock_price_miss:
  assumes "the_key s = Some key"
    and "fst (cache_read e (''price_'' @ symbol) (timedelta_hours 1) s) = None"
  shows "requests (snd (get_stock_price e s symbol)) = requests s @ [quote_params key symbol]"
  using assms
  by (simp add: get_stock_price_def split_beta Let_def quote_params_def
           split: response.splits option.splits sum.splits)

lemma get_stock_price_fetched:
  assumes "fst (get_stock_price e s symbol) = Quote q"
    and "length (requests (snd (get_stock_price e s symbol))) = Suc (length (requests s))"
  shows "cache (snd (get_stock_price e s symbol)) (''price_'' @ symbol)
           = Some (clock e (ticks (snd (get_stock_price e s symbol)) - 1), Quote q)"
  using assms
  by (auto simp: get_stock_price_def split_beta Let_def
           split: response.splits option.splits sum.splits)


text \<open>
  C6 (as amended). When a call of \<open>get_stock_price\<close> fetches a quote from the provider
  (it returns a quote and the request log has grown by one), a second call for the same
  symbol whose clock reading is less than one hour after the timestamp that the first call
  stored (its last clock reading) issues no provider request, leaves the cache as it is and
  returns the same quote: the two calls make exactly one request.
\<close>

theorem second_quote_from_cache:
  fixes e s symbol
  defines "s1 \<equiv> snd (get_stock_price e s symbol)"
  assumes "fst (get_stock_price e s symbol) = Quote q"
    and "length (requests s1) = Suc (length (requests s))"
    and "clock e (ticks s1) - clock e (ticks s1 - 1) < timedelta_hours 1"
  shows "fst (get_stock_price e s1 symbol) = Quote q \<and>
         requests (snd (get_stock_price e s1 symbol)) = requests s1 \<and>
         cache (snd (get_stock_price e s1 symbol)) = cache s1 \<and>
         length (requests (snd (get_stock_price e s1 symbol))) = Suc (length (requests s))"
proof -
  have entry: "cache s1 (''price_'' @ symbol) = Some (clock e (ticks s1 - 1), Quote q)"
    unfolding s1_def using assms(2,3) [unfolded s1_def] by (rule get_stock_price_fetched)
  obtain key where key: "the_key s = Some key"
    using assms(2) by (cases "the_key s") (auto simp: get_stock_price_def)
  have "the_key s1 = the_key s"
    unfolding s1_def
    by (simp add: get_stock_price_def split_beta Let_def
             split: response.splits option.splits sum.splits)
  with key have key1: "the_key s1 = Some key"
    by simp
  have hit: "fst (cache_read e (''price_'' @ symbol) (timedelta_hours 1) s1) = Some (Quote q)"
    using entry assms(4) by (simp add: cache_read_Some)
  from get_stock_price_hit [OF key1 hit]
  show ?thesis
    using assms(3) by simp
qed

theorem second_quote_from_cache_witness:
  "fst (get_stock_price sample_env (init (Some ''key'')) ''SPY'')
     = Quote \<lparr>q_symbol = ''SPY'', q_price = 102, q_change_percent = ''0.5%'', q_volume = 5000,
               q_last_updated = 86400000\<rparr> \<and>
   length (requests (snd (get_stock_price sample_env (init (Some ''key'')) ''SPY'')))
     = Suc (length (requests (init (Some ''key'')))) \<and>
   clock sample_env (ticks (snd (get_stock_price sample_env (init (Some ''key'')) ''SPY'')))
     - clock sample_env (ticks (snd (get_stock_price sample_env (init (Some ''key'')) ''SPY'')) - 1)
     < timedelta_hours 1 \<and>
   fst (get_stock_price sample_env
          (snd (get_stock_price sample_env (init (Some ''key'')) ''SPY'')) ''SPY'')
     = Quote \<lparr>q_symbol = ''SPY'', q_price = 102, q_change_percent = ''0.5%'', q_volume = 5000,
               q_last_updated = 86400000\<rparr> \<and>
   length (requests (snd (get_stock_price sample_env
          (snd (get_stock_price sample_env (init (Some ''key'')) ''SPY'')) ''SPY''))) = 1"
proof -
  let ?s = "init (Some ''key'')"
  let ?q = "\<lparr>q_symbol = ''SPY'', q_price = 102, q_change_percent = ''0.5%'', q_volume = 5000,
              q_last_updated = 86400000\<rparr>"
  have h1: "fst (get_stock_price sample_env ?s ''SPY'') = Quote ?q"
    by code_simp
  have h2: "length (requests (snd (get_stock_price sample_env ?s ''SPY'')))
              = Suc (length (requests ?s))"
    by code_simp
  have h3: "clock sample_env (ticks (snd (get_stock_price sample_env ?s ''SPY'')))
              - clock sample_env (ticks (snd (get_stock_price sample_env ?s ''SPY'')) - 1)
              < timedelta_hours 1"
    by code_simp
  have h0: "length (requests ?s) = 0"
    by (simp add: init_def)
  show ?thesis
    using h1 h2 h3 second_quote_from_cache [OF h1 h2 h3] h0 by simp
qed

text \<open>
  C6 as stated fails when the first call does not obtain a quote: with a provider that
  cannot be reached nothing is cached, and two calls at the same instant make two
  requests.
\<close>

theorem second_quote_counterexample:
  "fst (get_stock_price failing_env (init (Some ''key'')) ''SPY'') = Error ''connection refused'' \<and>
   clock failing_env (ticks (snd (get_stock_price failing_env (init (Some ''key'')) ''SPY'')))
     - clock failing_env (ticks (init (Some ''key''))) < timedelta_hours 1 \<and>
   requests (snd (get_stock_price failing_env
                    (snd (get_stock_price failing_env (init (Some ''key'')) ''SPY'')) ''SPY''))
     = [quote_params ''key'' ''SPY'', quote_params ''key'' ''SPY'']"
  by code_simp

subsection \<open>Errors are not cached\<close>

lemma performance_loop_data_ok:
  "fst (performance_loop e ts dates cur periods [] s) = Inr perf \<Longrightarrow>
   data_ok (Metrics \<lparr>m_symbol = symbol, m_current_price = cur, m_performance = perf\<rparr>)"
  by (simp add: data_ok_def) (erule performance_loop_rounded, simp)

lemma performance_loop_ticks:
  "n \<le> ticks s \<Longrightarrow> n \<le> ticks (snd (performance_loop e ts dates cur ps acc s))"
proof (induction ps arbitrary: acc s)
  case Nil
  then show ?case by simp
next
  case (Cons p ps)
  obtain name days where p: "p = (name, days)"
    by (cases p)
  have step: "n \<le> ticks (snd (performance_loop e ts dates cur ps acc' (snd (datetime_now e s))))"
    for acc' :: "(string \<times> perf_entry) list"
    using Cons.prems by (intro Cons.IH) simp
  show ?case
    unfolding p
    using step Cons.prems
    by (simp add: Let_def split_beta split: option.splits sum.splits)
qed

lemma performance_loop_the_key [simp]:
  "the_key (snd (performance_loop e ts dates cur ps acc s)) = the_key s"
  by (simp add: the_key_def performance_loop_state)

lemma cache_read_ticks: "n \<le> ticks s \<Longrightarrow> n \<le> ticks (snd (cache_read e k ttl s))"
  by (simp add: cache_read_def split_beta split: option.splits)

lemma performance_loop_rounded0:
  "fst (performance_loop e ts dates cur ps [] s) = Inr perf \<Longrightarrow>
   list_all rounded2 (performances_of perf)"
  by (erule performance_loop_rounded) simp

lemma ticks_after_read: "ticks s \<le> ticks (snd (cache_read e k ttl s))"
  by (rule cache_read_ticks) simp

lemma ticks_after_loop:
  "ticks s \<le> ticks (snd (performance_loop e ts dates cur ps acc
                            (snd (requests_get e p (snd (cache_read e k ttl s))))))"
  by (rule performance_loop_ticks) (simp add: ticks_after_read)

lemma get_stock_price_ticks: "ticks s \<le> ticks (snd (get_stock_price e s symbol))"
  by (simp add: get_stock_price_def split_beta Let_def ticks_after_read ticks_after_loop le_SucI
           split: response.splits option.splits sum.splits)

lemma get_stock_price_the_key: "the_key (snd (get_stock_price e s symbol)) = the_key s"
  by (simp add: get_stock_price_def split_beta Let_def
           split: response.splits option.splits sum.splits)

lemma cached_get_stock_price:
  "cached_operation (''price_'' @ symbol) (timedelta_hours 1) (\<lambda>e s. get_stock_price e s symbol)"
  unfolding cached_operation_def
proof (intro allI conjI)
  fix e s
  show "ticks s \<le> ticks (snd (get_stock_price e s symbol))"
    by (rule get_stock_price_ticks)
  show "the_key (snd (get_stock_price e s symbol)) = the_key s"
    by (rule get_stock_price_the_key)
qed (auto simp: get_stock_price_def split_beta Let_def data_ok_def
         split: response.splits option.splits sum.splits)

lemma get_performance_metrics_ticks: "ticks s \<le> ticks (snd (get_performance_metrics e s symbol))"
  by (simp add: get_performance_metrics_def split_beta Let_def ticks_after_read ticks_after_loop le_SucI
           split: response.splits option.splits sum.splits list.splits)

lemma get_performance_metrics_the_key: "the_key (snd (get_performance_metrics e s symbol)) = the_key s"
  by (simp add: get_performance_metrics_def split_beta Let_def
           split: response.splits option.splits sum.splits list.splits)

lemma cached_get_performance_metrics:
  "cached_operation (''metrics_'' @ symbol) (timedelta_hours 6) (\<lambda>e s. get_performance_metrics e s symbol)"
  unfolding cached_operation_def
proof (intro allI conjI)
  fix e s
  show "ticks s \<le> ticks (snd (get_performance_metrics e s symbol))"
    by (rule get_performance_metrics_ticks)
  show "the_key (snd (get_performance_metrics e s symbol)) = the_key s"
    by (rule get_performance_metrics_the_key)
qed (auto simp: get_performance_metrics_def split_beta Let_def data_ok_def performance_loop_state
         split: response.splits option.splits sum.splits list.splits
         dest: performance_loop_rounded0)

lemma get_etf_overview_ticks: "ticks s \<le> ticks (snd (get_etf_overview e s symbol))"
  by (simp add: get_etf_overview_def split_beta Let_def ticks_after_read ticks_after_loop le_SucI
           split: response.splits option.splits sum.splits)

lemma get_etf_overview_the_key: "the_key (snd (get_etf_overview e s symbol)) = the_key s"
  by (simp add: get_etf_overview_def split_beta Let_def
           split: response.splits option.splits sum.splits)

lemma cached_get_etf_overview:
  "cached_operation (''overview_'' @ symbol) (timedelta_hours 24) (\<lambda>e s. get_etf_overview e s symbol)"
  unfolding cached_operation_def
proof (intro allI conjI)
  fix e s
  show "ticks s \<le> ticks (snd (get_etf_overview e s symbol))"
    by (rule get_etf_overview_ticks)
  show "the_key (snd (get_etf_overview e s symbol)) = the_key s"
    by (rule get_etf_overview_the_key)
qed (auto simp: get_etf_overview_def split_beta Let_def data_ok_def
         split: response.splits option.splits sum.splits)

lemma get_sector_performance_ticks: "ticks s \<le> ticks (snd (get_sector_performance e s))"
  by (simp add: get_sector_performance_def split_beta Let_def ticks_after_read ticks_after_loop le_SucI
           split: response.splits option.splits sum.splits)

lemma get_sector_performance_the_key: "the_key (snd (get_sector_performance e s)) = the_key s"
  by (simp add: get_sector_performance_def split_beta Let_def
           split: response.splits option.splits sum.splits)

lemma cached_get_sector_performance:
  "cached_operation (''sector_performance'') (timedelta_hours 6) (get_sector_performance)"
  unfolding cached_operation_def
proof (intro allI conjI)
  fix e s
  show "ticks s \<le> ticks (snd (get_sector_performance e s))"
    by (rule get_sector_performance_ticks)
  show "the_key (snd (get_sector_performance e s)) = the_key s"
    by (rule get_sector_performance_the_key)
qed (auto simp: get_sector_performance_def split_beta Let_def data_ok_def
         split: response.splits option.splits sum.splits)

lemma operations_cached:
  assumes "(k, ttl, op) \<in> set (operations symbol)"
  shows "cached_operation k ttl op"
proof -
  from assms consider
      "(k, ttl, op) = (''price_'' @ symbol, timedelta_hours 1, \<lambda>e s. get_stock_price e s symbol)"
    | "(k, ttl, op) = (''metrics_'' @ symbol, timedelta_hours 6,
                       \<lambda>e s. get_performance_metrics e s symbol)"
    | "(k, ttl, op) = (''overview_'' @ symbol, timedelta_hours 24,
                       \<lambda>e s. get_etf_overview e s symbol)"
    | "(k, ttl, op) = (''sector_performance'', timedelta_hours 6, get_sector_performance)"
    unfolding operations_def by (simp only: set_simps insert_iff empty_iff) blast
  then show ?thesis
  proof cases
    case 1
    then show ?thesis using cached_get_stock_price [of symbol] by (simp only: prod.inject)
  next
    case 2
    then show ?thesis using cached_get_performance_metrics [of symbol] by (simp only: prod.inject)
  next
    case 3
    then show ?thesis using cached_get_etf_overview [of symbol] by (simp only: prod.inject)
  next
    case 4
    then show ?thesis using cached_get_sector_performance by (simp only: prod.inject)
  qed
qed


lemma cache_read_None:
  "fst (cache_read e k ttl s) = None \<longleftrightarrow>
     cache s k = None \<or> (\<exists>t d. cache s k = Some (t, d) \<and> \<not> clock e (ticks s) - t < ttl)"
  by (auto simp: cache_read_def split_beta split: option.splits)

lemma error_from_miss:
  assumes "cached_operation k ttl op" and "cache_ok s" and "the_key s \<noteq> None"
    and "fst (op e s) = Error msg"
  shows "fst (cache_read e k ttl s) = None"
proof (rule ccontr)
  assume "fst (cache_read e k ttl s) \<noteq> None"
  then obtain d where d: "fst (cache_read e k ttl s) = Some d"
    by blast
  with assms(1,3) have "op e s = (d, snd (cache_read e k ttl s))"
    unfolding cached_operation_def by blast
  with assms(4) have "d = Error msg"
    by simp
  moreover have "data_ok d"
    using assms(2) d by (rule cache_ok_read)
  ultimately show False
    by (simp add: data_ok_def)
qed

lemma miss_requests:
  assumes "cached_operation k ttl op" and "the_key s \<noteq> None"
    and "fst (cache_read e k ttl s) = None"
  shows "length (requests (snd (op e s))) = Suc (length (requests s))"
  using assms unfolding cached_operation_def by blast

lemma miss_persists:
  assumes "fst (cache_read e k ttl s) = None" and "mono (clock e)" and "ticks s \<le> ticks s2"
    and "cache s2 k = cache s k"
  shows "fst (cache_read e k ttl s2) = None"
proof -
  have "clock e (ticks s) \<le> clock e (ticks s2)"
    using assms(2,3) by (rule monoD)
  then show ?thesis
    using assms(1,4) by (auto simp: cache_read_None)
qed

lemma cache_shape:
  assumes "cached_operation k ttl op"
  shows "cache (snd (op e s)) = cache s \<or>
         (\<exists>t. cache (snd (op e s)) = (cache s)(k \<mapsto> (t, fst (op e s)))) \<and>
         (\<forall>msg. fst (op e s) \<noteq> Error msg) \<and>
         length (requests (snd (op e s))) = Suc (length (requests s))"
proof (cases "the_key s")
  case None
  with assms have "op e s = (Error ''API key not set'', s)"
    unfolding cached_operation_def by blast
  then show ?thesis by simp
next
  case (Some key)
  then have key: "the_key s \<noteq> None" by simp
  show ?thesis
  proof (cases "fst (cache_read e k ttl s)")
    case (Some d)
    with assms key have "op e s = (d, snd (cache_read e k ttl s))"
      unfolding cached_operation_def by blast
    then show ?thesis by simp
  next
    case None
    with assms key have
      "length (requests (snd (op e s))) = Suc (length (requests s)) \<and>
       (cache (snd (op e s)) = cache s \<or>
        data_ok (fst (op e s)) \<and>
        (\<exists>t. cache (snd (op e s)) = (cache s)(k \<mapsto> (t, fst (op e s)))))"
      unfolding cached_operation_def by blast
    then show ?thesis
      by (auto simp: data_ok_def)
  qed
qed


text \<open>
  C10. For each of the four operations, with its cache key \<open>k\<close>: a call either leaves the
  cache as it is, or writes the entry of \<open>k\<close> with the value it returns, and then that
  value is not an error and one provider request was issued. So a call that returns an
  error leaves the cache unchanged. From a client whose cache was filled by the client
  itself and whose credential is set, an error never comes from the cache (the call that
  returns it issued a provider request), and every later call for the same key issues a
  fresh provider request, as long as the entry of \<open>k\<close> is untouched and the clock does not
  run backwards; the call that directly follows is such a call.
\<close>

theorem errors_are_not_cached:
  assumes "(k, ttl, op) \<in> set (operations symbol)"
  shows "(cache (snd (op e s)) = cache s \<or>
          (\<exists>t. cache (snd (op e s)) = (cache s)(k \<mapsto> (t, fst (op e s)))) \<and>
          (\<forall>msg. fst (op e s) \<noteq> Error msg) \<and>
          length (requests (snd (op e s))) = Suc (length (requests s))) \<and>
         (fst (op e s) = Error msg \<longrightarrow> cache (snd (op e s)) = cache s) \<and>
         (cache_ok s \<longrightarrow> the_key s \<noteq> None \<longrightarrow> fst (op e s) = Error msg \<longrightarrow>
            length (requests (snd (op e s))) = Suc (length (requests s))) \<and>
         (cache_ok s \<longrightarrow> the_key s \<noteq> None \<longrightarrow> fst (op e s) = Error msg \<longrightarrow>
          mono (clock e) \<longrightarrow> ticks s \<le> ticks s2 \<longrightarrow> cache s2 k = cache s k \<longrightarrow>
          the_key s2 = the_key s \<longrightarrow>
            length (requests (snd (op e s2))) = Suc (length (requests s2))) \<and>
         (cache_ok s \<longrightarrow> the_key s \<noteq> None \<longrightarrow> fst (op e s) = Error msg \<longrightarrow>
          mono (clock e) \<longrightarrow>
            length (requests (snd (op e (snd (op e s))))) = Suc (length (requests (snd (op e s)))))"
proof -
  have c: "cached_operation k ttl op"
    using assms by (rule operations_cached)
  note shape = cache_shape [OF c, of e s]
  have unchanged: "cache (snd (op e s)) = cache s" if "fst (op e s) = Error msg"
    using shape that by blast
  have later: "length (requests (snd (op e s2))) = Suc (length (requests s2))"
    if "cache_ok s" "the_key s \<noteq> None" "fst (op e s) = Error msg" "mono (clock e)"
      "ticks s \<le> ticks s2" "cache s2 k = cache s k" "the_key s2 = the_key s" for s2
  proof -
    have "fst (cache_read e k ttl s) = None"
      using c that(1-3) by (rule error_from_miss)
    then have "fst (cache_read e k ttl s2) = None"
      using that(4-6) by (rule miss_persists)
    with c show ?thesis
      using that(2,7) by (intro miss_requests [where k = k and ttl = ttl]) simp_all
  qed
  have now: "length (requests (snd (op e s))) = Suc (length (requests s))"
    if "cache_ok s" "the_key s \<noteq> None" "fst (op e s) = Error msg"
    using c that(2) error_from_miss [OF c that] by (rule miss_requests)
  have "next": "length (requests (snd (op e (snd (op e s))))) = Suc (length (requests (snd (op e s))))"
    if "cache_ok s" "the_key s \<noteq> None" "fst (op e s) = Error msg" "mono (clock e)"
  proof (rule later [OF that])
    show "ticks s \<le> ticks (snd (op e s))" "the_key (snd (op e s)) = the_key s"
      using c unfolding cached_operation_def by blast+
    show "cache (snd (op e s)) k = cache s k"
      using unchanged [OF that(3)] by simp
  qed
  show ?thesis
    using shape unchanged later now "next" by blast
qed

theorem errors_are_not_cached_witness:
  "(''price_SPY'', timedelta_hours 1, \<lambda>e s. get_stock_price e s ''SPY'') \<in> set (operations ''SPY'') \<and>
   cache_ok (init (Some ''key'')) \<and>
   the_key (init (Some ''key'')) \<noteq> None \<and>
   fst (get_stock_price failing_env (init (Some ''key'')) ''SPY'') = Error ''connection refused'' \<and>
   mono (clock failing_env) \<and>
   cache (snd (get_stock_price failing_env (init (Some ''key'')) ''SPY'')) = cache (init (Some ''key'')) \<and>
   length (requests (snd (get_stock_price failing_env (init (Some ''key'')) ''SPY'')))
     = Suc (length (requests (init (Some ''key'')))) \<and>
   length (requests (snd (get_stock_price failing_env
             (snd (get_stock_price failing_env (init (Some ''key'')) ''SPY'')) ''SPY'')))
     = Suc (length (requests (snd (get_stock_price failing_env (init (Some ''key'')) ''SPY''))))"
proof -
  let ?s = "init (Some ''key'')"
  have h1: "(''price_SPY'', timedelta_hours 1, \<lambda>e s. get_stock_price e s ''SPY'')
              \<in> set (operations ''SPY'')"
    by (simp add: operations_def)
  have h2: "cache_ok ?s"
    by (simp add: cache_ok_def init_def)
  have h3: "the_key ?s \<noteq> None"
    by (simp add: the_key_def init_def)
  have h4: "fst (get_stock_price failing_env ?s ''SPY'') = Error ''connection refused''"
    by code_simp
  have h5: "mono (clock failing_env)"
    by (simp add: failing_env_def mono_def)
  from errors_are_not_cached [OF h1, where e = failing_env and s = ?s
         and msg = "''connection refused''" and ?s2.0 = ?s]
  show ?thesis
    using h1 h2 h3 h4 h5 by blast
qed

subsection \<open>The horizons of the performance\<close>








lemma sorted_reverse_set [simp]: "set (sorted_reverse ts) = fst ` set ts"
  by (simp add: sorted_reverse_def)


lemma sorted_reverse_Nil [simp]: "sorted_reverse ts = [] \<longleftrightarrow> ts = []"
  using sorted_reverse_set [of ts] by (metis image_is_empty set_empty)







subsection \<open>The aggregate of a portfolio\<close>

lemma valid_analyses_simps [simp]:
  "valid_analyses [] = []"
  "valid_analyses (Analysis a # rs) = a # valid_analyses rs"
  "valid_analyses (AnalysisError name err # rs) = valid_analyses rs"
  by (simp_all add: valid_analyses_def List.map_filter_def)


lemma analyze_each_length_aux:
  "analyze_each e rt symbols s = (Inr rs, s') \<Longrightarrow> length rs = length symbols"
  by (induction symbols arbitrary: rs s s') (auto split: prod.splits sum.splits)

lemma analyze_each_length:
  "fst (analyze_each e rt symbols s) = Inr rs \<Longrightarrow> length rs = length symbols"
  using analyze_each_length_aux [of e rt symbols s rs "snd (analyze_each e rt symbols s)"]
  by (metis prod.collapse)







end
